theory Spec2Isabelle
  imports Main "HOL-Library.Word"
begin

section \<open>The GPIO buzzer driver (gpio-buzzer.c)\<close>

text \<open>
  The driver keeps one global \<^verbatim>\<open>struct miscbuzzer_dev miscbuzzer\<close> and offers two front
  ends on it: the misc character device (\<^verbatim>\<open>miscbuzzer_open\<close>, \<^verbatim>\<open>miscbuzzer_write\<close>,
  \<^verbatim>\<open>miscbuzzer_release\<close>) and the sysfs attribute \<^verbatim>\<open>buzz\<close> (\<^verbatim>\<open>buzzer_show\<close>,
  \<^verbatim>\<open>buzzer_store\<close>). Each C function becomes a function from the machine state to a
  return value and the next machine state. The target is 32-bit ARM (the file includes
  \<^verbatim>\<open>asm/mach/map.h\<close>): \<^verbatim>\<open>int\<close>, \<^verbatim>\<open>unsigned long\<close>, \<^verbatim>\<open>size_t\<close> and
  \<^verbatim>\<open>ssize_t\<close> are 32 bits wide.
\<close>

subsection \<open>Constants\<close>

definition BUZZEROFF :: int where "BUZZEROFF = 0"
definition BUZZERON :: int where "BUZZERON = 1"
definition GPIO_OUTPUT :: int where "GPIO_OUTPUT = 1"
definition GPIO_HIGH :: int where "GPIO_HIGH = 1"
definition GPIO_LOW :: int where "GPIO_LOW = 0"
definition DEV_BUSY :: int where "DEV_BUSY = 1"
definition DEV_FREE :: int where "DEV_FREE = 0"

text \<open>The errno values of the kernel headers (\<^verbatim>\<open>linux/errno.h\<close>).\<close>

definition EFAULT :: int where "EFAULT = 14"
definition EBUSY :: int where "EBUSY = 16"
definition EINVAL :: int where "EINVAL = 22"
definition ERANGE :: int where "ERANGE = 34"

type_synonym ulong = "32 word"
type_synonym size_t = "32 word"

subsection \<open>Device state, hardware lines and the history of stores\<close>

text \<open>
  The fields of \<^verbatim>\<open>struct miscbuzzer_dev\<close> that hold data. The \<^verbatim>\<open>device\<close> pointer is only
  passed to \<^verbatim>\<open>dev_err\<close>; the spinlock \<^verbatim>\<open>lock\<close> has no value of its own here, its
  acquisitions and releases are recorded in the machine's trace.
\<close>

record miscbuzzer_dev =
  buzzer_gpio :: int
  buzzer_stats :: int
  dev_stats :: int

text \<open>
  What a driver function does to shared state, in program order: taking and dropping
  \<^verbatim>\<open>miscbuzzer.lock\<close>, driving a GPIO line, storing to \<^verbatim>\<open>buzzer_stats\<close> and storing to
  \<^verbatim>\<open>dev_stats\<close>.
\<close>

datatype event =
    Spin_lock
  | Spin_unlock
  | Gpio_write int int
  | Stats_write int
  | Dev_write int

text \<open>
  The machine: the global \<^verbatim>\<open>miscbuzzer\<close>, the level of every GPIO line (indexed by the
  GPIO number), and the events so far.
\<close>

record machine =
  miscbuzzer :: miscbuzzer_dev
  gpio_level :: "int \<Rightarrow> int"
  trace :: "event list"

definition spin_lock_irqsave :: "machine \<Rightarrow> machine" where
  "spin_lock_irqsave m = m\<lparr>trace := trace m @ [Spin_lock]\<rparr>"

definition spin_unlock_irqrestore :: "machine \<Rightarrow> machine" where
  "spin_unlock_irqrestore m = m\<lparr>trace := trace m @ [Spin_unlock]\<rparr>"

definition gpio_set_value :: "int \<Rightarrow> int \<Rightarrow> machine \<Rightarrow> machine" where
  "gpio_set_value gpio v m =
     m\<lparr>gpio_level := (gpio_level m)(gpio := v), trace := trace m @ [Gpio_write gpio v]\<rparr>"

definition set_buzzer_stats :: "int \<Rightarrow> machine \<Rightarrow> machine" where
  "set_buzzer_stats v m =
     m\<lparr>miscbuzzer := (miscbuzzer m)\<lparr>buzzer_stats := v\<rparr>, trace := trace m @ [Stats_write v]\<rparr>"

definition set_dev_stats :: "int \<Rightarrow> machine \<Rightarrow> machine" where
  "set_dev_stats v m =
     m\<lparr>miscbuzzer := (miscbuzzer m)\<lparr>dev_stats := v\<rparr>, trace := trace m @ [Dev_write v]\<rparr>"

subsection \<open>The character device\<close>

text \<open>
  \<^verbatim>\<open>miscbuzzer_open\<close>. \<^verbatim>\<open>filp->private_data\<close> is pointed at the one global device on
  every open, before the check, and read back by write and release; the file itself
  is not part of the state.
\<close>

definition miscbuzzer_open :: "machine \<Rightarrow> int \<times> machine" where
  "miscbuzzer_open m =
     (let m1 = spin_lock_irqsave m in
      if dev_stats (miscbuzzer m1) = DEV_BUSY
      then (- EBUSY, spin_unlock_irqrestore m1)
      else (0, spin_unlock_irqrestore (set_dev_stats DEV_BUSY m1)))"

text \<open>
  \<^verbatim>\<open>miscbuzzer_write\<close>. The kernel's \<^verbatim>\<open>copy_from_user\<close> is outside the driver; its outcome
  is given by two arguments: \<open>uncopied\<close>, the \<^verbatim>\<open>unsigned long\<close> it returns (the number of
  bytes it could not copy, 0 when the transfer completed), and \<open>databuf0\<close>, the content
  of \<^verbatim>\<open>databuf[0]\<close> after the call (the caller's first byte when the transfer completed).
  The assignment to \<^verbatim>\<open>int retvalue\<close> reads the 32 bits as signed. The function takes no
  lock.
\<close>

definition miscbuzzer_write :: "machine \<Rightarrow> ulong \<Rightarrow> 8 word \<Rightarrow> int \<times> machine" where
  "miscbuzzer_write m uncopied databuf0 =
     (let retvalue = sint uncopied in
      if retvalue < 0 then (- EFAULT, m)
      else
        let buzzerstat = databuf0;
            gpio = buzzer_gpio (miscbuzzer m)
        in if uint buzzerstat = BUZZERON
           then (0, set_buzzer_stats BUZZERON (gpio_set_value gpio GPIO_LOW m))
           else if uint buzzerstat = BUZZEROFF
           then (0, set_buzzer_stats BUZZEROFF (gpio_set_value gpio GPIO_HIGH m))
           else (0, m))"

text \<open>\<^verbatim>\<open>miscbuzzer_release\<close>.\<close>

definition miscbuzzer_release :: "machine \<Rightarrow> int \<times> machine" where
  "miscbuzzer_release m =
     (let m1 = spin_lock_irqsave m;
          m2 = (if dev_stats (miscbuzzer m1) = DEV_BUSY then set_dev_stats DEV_FREE m1 else m1)
      in (0, spin_unlock_irqrestore m2))"

subsection \<open>The kernel's decimal parser\<close>

text \<open>
  \<^verbatim>\<open>buzzer_store\<close> calls \<^verbatim>\<open>kstrtoul(buf, 10, &state)\<close> of the kernel library
  (\<^verbatim>\<open>lib/kstrtox.c\<close>). For base 10 it skips one leading \<^verbatim>\<open>+\<close>, reads decimal digits,
  accepts one trailing newline and then requires the end of the string. It returns
  \<^verbatim>\<open>-ERANGE\<close> when the digits overflow, \<^verbatim>\<open>-EINVAL\<close> when there is no digit or
  something follows, and stores the value only on success. A C string ends at its
  first NUL.
\<close>

definition c_str :: "string \<Rightarrow> string" where
  "c_str buf = takeWhile (\<lambda>c. c \<noteq> CHR 0x00) buf"

definition is_digit :: "char \<Rightarrow> bool" where
  "is_digit c = (48 \<le> (of_char c :: nat) \<and> (of_char c :: nat) \<le> 57)"

definition digit_val :: "char \<Rightarrow> nat" where
  "digit_val c = (of_char c :: nat) - 48"

text \<open>
  \<^verbatim>\<open>_parse_integer\<close>: the value of the leading digits (exact, as a natural number) and
  the rest of the string. The C code computes in 64 bits and raises its overflow flag
  when the exact value passes \<open>2 ^ 64 - 1\<close>.
\<close>

fun parse_integer :: "string \<Rightarrow> nat \<Rightarrow> nat \<times> string" where
  "parse_integer [] acc = (acc, [])"
| "parse_integer (c # cs) acc =
     (if is_digit c then parse_integer cs (acc * 10 + digit_val c) else (acc, c # cs))"

definition kstrtoull :: "string \<Rightarrow> int + nat" where
  "kstrtoull s0 =
     (let s = (case s0 of c # cs \<Rightarrow> if c = CHR ''+'' then cs else s0 | [] \<Rightarrow> s0);
          (res, rest) = parse_integer s 0;
          rv = length s - length rest
      in if 2 ^ 64 \<le> res then Inl (- ERANGE)
         else if rv = 0 then Inl (- EINVAL)
         else
           let rest' = (case rest of c # cs \<Rightarrow> if c = CHR 0x0A then cs else rest | [] \<Rightarrow> rest)
           in if rest' \<noteq> [] then Inl (- EINVAL) else Inr res)"

definition kstrtoul :: "string \<Rightarrow> int + ulong" where
  "kstrtoul buf =
     (case kstrtoull (c_str buf) of
        Inl e \<Rightarrow> Inl e
      | Inr tmp \<Rightarrow> if 2 ^ 32 \<le> tmp then Inl (- ERANGE) else Inr (word_of_nat tmp))"

subsection \<open>The sysfs attribute\<close>

text \<open>
  \<^verbatim>\<open>buzzer_show\<close>: \<^verbatim>\<open>sprintf(buf, "%u\n", miscbuzzer.buzzer_stats)\<close>. The result is the
  return value (the number of characters) and the text written to \<^verbatim>\<open>buf\<close>.
\<close>

definition digit_char :: "nat \<Rightarrow> char" where
  "digit_char d = ''0123456789'' ! d"

fun utoa :: "nat \<Rightarrow> string" where
  "utoa n = (if n < 10 then [digit_char n] else utoa (n div 10) @ [digit_char (n mod 10)])"

declare utoa.simps [simp del]

definition buzzer_show :: "machine \<Rightarrow> int \<times> string" where
  "buzzer_show m =
     (let text = utoa (nat (buzzer_stats (miscbuzzer m) mod 2 ^ 32)) @ [CHR 0x0A]
      in (int (length text), text))"

text \<open>
  \<^verbatim>\<open>buzzer_store\<close>. \<open>buf\<close> is the text handed over by sysfs, \<open>sz\<close> the byte count (the C parameter \<^verbatim>\<open>size\<close>).
  \<^verbatim>\<open>unsigned long state\<close> is not initialised and \<^verbatim>\<open>kstrtoul\<close> leaves it alone when it
  fails, so the value it then holds is the argument \<open>state0\<close>. The result of
  \<^verbatim>\<open>kstrtoul\<close> is assigned to \<^verbatim>\<open>ret\<close> and overwritten by \<^verbatim>\<open>ret = size\<close>, a conversion
  from \<^verbatim>\<open>size_t\<close> to \<^verbatim>\<open>ssize_t\<close>.
\<close>

definition buzzer_store :: "machine \<Rightarrow> string \<Rightarrow> size_t \<Rightarrow> ulong \<Rightarrow> int \<times> machine" where
  "buzzer_store m buf sz state0 =
     (let m1 = spin_lock_irqsave m in
      if dev_stats (miscbuzzer m1) = DEV_BUSY
      then (- EBUSY, spin_unlock_irqrestore m1)
      else
        let m2 = set_dev_stats DEV_BUSY m1;
            state = (case kstrtoul buf of Inl e \<Rightarrow> state0 | Inr v \<Rightarrow> v);
            gpio = buzzer_gpio (miscbuzzer m2);
            m3 = (if uint state = BUZZERON
                  then set_buzzer_stats BUZZERON (gpio_set_value gpio GPIO_LOW m2)
                  else if uint state = BUZZEROFF
                  then set_buzzer_stats BUZZEROFF (gpio_set_value gpio GPIO_HIGH m2)
                  else m2);
            m4 = set_dev_stats DEV_FREE m3;
            ret = sint sz
        in (ret, spin_unlock_irqrestore m4))"

subsection \<open>Attachment and detachment\<close>

text \<open>
  What \<^verbatim>\<open>gpio_buzzer_probe\<close> is told by the platform: the result of
  \<^verbatim>\<open>of_get_named_gpio\<close>, the return values of \<^verbatim>\<open>misc_register\<close>,
  \<^verbatim>\<open>device_create_file\<close> and \<^verbatim>\<open>gpio_direction_output\<close>, and the device tree's
  \<^verbatim>\<open>default-state\<close> string (\<open>None\<close> when the property is absent, so that
  \<^verbatim>\<open>of_property_read_string\<close> does not return 0).
\<close>

record platform_device =
  of_gpios :: int
  misc_register_ret :: int
  device_create_file_ret :: int
  gpio_direction_output_ret :: int
  of_default_state :: "string option"

text \<open>
  \<^verbatim>\<open>gpio_direction_output(gpio, value)\<close> of gpiolib makes the line an output at the
  given level when it succeeds (returns 0).
\<close>

definition gpio_direction_output :: "int \<Rightarrow> int \<Rightarrow> int \<Rightarrow> machine \<Rightarrow> machine" where
  "gpio_direction_output gpio v ret m = (if ret = 0 then gpio_set_value gpio v m else m)"

text \<open>
  \<^verbatim>\<open>gpio_buzzer_probe\<close>. The assignment to \<^verbatim>\<open>miscbuzzer.buzzer_gpio\<close> comes before the
  first check; \<^verbatim>\<open>buzzer_stats\<close> is not assigned anywhere in the function.
\<close>

definition gpio_buzzer_probe :: "machine \<Rightarrow> platform_device \<Rightarrow> int \<times> machine" where
  "gpio_buzzer_probe m pdev =
     (let m1 = m\<lparr>miscbuzzer := (miscbuzzer m)\<lparr>buzzer_gpio := of_gpios pdev\<rparr>\<rparr> in
      if buzzer_gpio (miscbuzzer m1) < 0 then (- EINVAL, m1)
      else if misc_register_ret pdev < 0 then (- EFAULT, m1)
      else if device_create_file_ret pdev \<noteq> 0 then (- EFAULT, m1)
      else
        let m2 = set_dev_stats DEV_FREE m1;
            gpio = buzzer_gpio (miscbuzzer m2);
            ret = gpio_direction_output_ret pdev;
            m3 = gpio_direction_output gpio GPIO_OUTPUT ret m2
        in if ret \<noteq> 0 then (- EFAULT, m3)
           else
             let m4 = (case of_default_state pdev of
                         None \<Rightarrow> m3
                       | Some state \<Rightarrow>
                           if c_str state = ''on'' then gpio_set_value gpio GPIO_LOW m3
                           else gpio_set_value gpio GPIO_HIGH m3)
             in (ret, m4))"

text \<open>\<^verbatim>\<open>gpio_buzzer_remove\<close>.\<close>

definition gpio_buzzer_remove :: "machine \<Rightarrow> int \<times> machine" where
  "gpio_buzzer_remove m =
     (0, set_buzzer_stats BUZZEROFF (gpio_set_value (buzzer_gpio (miscbuzzer m)) GPIO_HIGH m))"

text \<open>
  The machine when the module is loaded: \<^verbatim>\<open>struct miscbuzzer_dev miscbuzzer;\<close> is a
  global without initialiser, so every field is 0. The levels of the GPIO lines are
  whatever the board has.
\<close>

definition module_loaded :: "(int \<Rightarrow> int) \<Rightarrow> machine" where
  "module_loaded lines =
     \<lparr>miscbuzzer = \<lparr>buzzer_gpio = 0, buzzer_stats = 0, dev_stats = 0\<rparr>,
      gpio_level = lines, trace = []\<rparr>"

subsection \<open>Sequences of session calls\<close>

datatype call = Open_session | Close_session

definition do_call :: "call \<Rightarrow> machine \<Rightarrow> int \<times> machine" where
  "do_call c m = (case c of Open_session \<Rightarrow> miscbuzzer_open m | Close_session \<Rightarrow> miscbuzzer_release m)"

text \<open>The return values of the calls, in order, and the machine after the last one.\<close>

fun run_calls :: "call list \<Rightarrow> machine \<Rightarrow> int list \<times> machine" where
  "run_calls [] m = ([], m)"
| "run_calls (c # cs) m =
     (let (r, m') = do_call c m; (rs, m'') = run_calls cs m' in (r # rs, m''))"

subsection \<open>Lock discipline on event sequences\<close>

text \<open>The events a function appended to the trace between machine \<open>m\<close> and machine \<open>m'\<close>.\<close>

definition new_events :: "machine \<Rightarrow> machine \<Rightarrow> event list" where
  "new_events m m' = drop (length (trace m)) (trace m')"

text \<open>
  \<open>writes_locked held es\<close>: every store and every GPIO write in \<open>es\<close> happens while the
  lock is held; \<open>held\<close> says whether it is held at the start.
\<close>

fun writes_locked :: "bool \<Rightarrow> event list \<Rightarrow> bool" where
  "writes_locked held [] = True"
| "writes_locked held (Spin_lock # es) = writes_locked True es"
| "writes_locked held (Spin_unlock # es) = writes_locked False es"
| "writes_locked held (Gpio_write g v # es) = (held \<and> writes_locked held es)"
| "writes_locked held (Stats_write v # es) = (held \<and> writes_locked held es)"
| "writes_locked held (Dev_write v # es) = (held \<and> writes_locked held es)"

text \<open>
  \<open>stats_with_gpio hw es\<close>: every store to \<^verbatim>\<open>buzzer_stats\<close> in \<open>es\<close> comes after a GPIO
  write made in the same critical section; \<open>hw\<close> says whether the current critical
  section has already written the line.
\<close>

fun stats_with_gpio :: "bool \<Rightarrow> event list \<Rightarrow> bool" where
  "stats_with_gpio hw [] = True"
| "stats_with_gpio hw (Spin_lock # es) = stats_with_gpio False es"
| "stats_with_gpio hw (Spin_unlock # es) = stats_with_gpio False es"
| "stats_with_gpio hw (Gpio_write g v # es) = stats_with_gpio True es"
| "stats_with_gpio hw (Stats_write v # es) = (hw \<and> stats_with_gpio hw es)"
| "stats_with_gpio hw (Dev_write v # es) = stats_with_gpio hw es"

section \<open>Properties\<close>

lemmas buzzer_consts =
  BUZZEROFF_def BUZZERON_def GPIO_OUTPUT_def GPIO_HIGH_def GPIO_LOW_def DEV_BUSY_def
  DEV_FREE_def EFAULT_def EBUSY_def EINVAL_def ERANGE_def

lemmas machine_ops =
  spin_lock_irqsave_def spin_unlock_irqrestore_def gpio_set_value_def set_buzzer_stats_def
  set_dev_stats_def

lemmas kstrtoul_defs = kstrtoul_def kstrtoull_def c_str_def is_digit_def digit_val_def

subsection \<open>Helper facts\<close>

lemma sint_size: "uint (sz :: size_t) < 2 ^ 31 \<Longrightarrow> sint sz = uint sz"
proof -
  assume b: "uint sz < 2 ^ 31"
  have "- (2 ^ 31) \<le> (0 :: int)" by simp
  also have "0 \<le> uint sz" by simp
  finally have "signed_take_bit 31 (uint sz) = uint sz"
    using b by (rule signed_take_bit_int_eq_self)
  then show ?thesis by (simp add: sint_uint)
qed

text \<open>A machine on which a session is open: the module was loaded and one open succeeded.\<close>

lemma opened_busy:
  "dev_stats (miscbuzzer (snd (miscbuzzer_open (module_loaded lines)))) = DEV_BUSY"
  by (simp add: miscbuzzer_open_def module_loaded_def machine_ops buzzer_consts)

lemma opened_fields:
  "buzzer_stats (miscbuzzer (snd (miscbuzzer_open (module_loaded lines)))) = 0"
  "buzzer_gpio (miscbuzzer (snd (miscbuzzer_open (module_loaded lines)))) = 0"
  "gpio_level (snd (miscbuzzer_open (module_loaded lines))) = lines"
  by (simp_all add: miscbuzzer_open_def module_loaded_def machine_ops buzzer_consts)

lemma loaded_fields:
  "dev_stats (miscbuzzer (module_loaded lines)) = 0"
  "buzzer_stats (miscbuzzer (module_loaded lines)) = 0"
  "buzzer_gpio (miscbuzzer (module_loaded lines)) = 0"
  "gpio_level (module_loaded lines) = lines"
  "trace (module_loaded lines) = []"
  by (simp_all add: module_loaded_def)

text \<open>
  A store that finds the device free, by the value that reaches the branch: the parsed
  number, or the uninitialised \<open>state0\<close> when parsing failed.
\<close>

lemma buzzer_store_free:
  assumes "dev_stats (miscbuzzer m) \<noteq> DEV_BUSY"
  shows "buzzer_store m buf sz state0 =
     (let state = (case kstrtoul buf of Inl e \<Rightarrow> state0 | Inr v \<Rightarrow> v);
          gpio = buzzer_gpio (miscbuzzer m);
          m2 = set_dev_stats DEV_BUSY (spin_lock_irqsave m);
          m3 = (if state = 1 then set_buzzer_stats BUZZERON (gpio_set_value gpio GPIO_LOW m2)
                else if state = 0 then set_buzzer_stats BUZZEROFF (gpio_set_value gpio GPIO_HIGH m2)
                else m2)
      in (sint sz, spin_unlock_irqrestore (set_dev_stats DEV_FREE m3)))"
proof -
  have "(uint x = 1) = (x = 1)" "(uint x = 0) = (x = 0)" for x :: ulong
    using word_uint_eq_iff [of x 1] word_uint_eq_iff [of x 0] by simp_all
  then show ?thesis
    using assms by (simp add: buzzer_store_def Let_def machine_ops buzzer_consts)
qed

subsection \<open>Session write\<close>

text \<open>
  C1. A session write that gets past the copy check acts on the byte in \<^verbatim>\<open>databuf[0]\<close>:
  byte 1 returns 0, drives the buzzer's line to \<^verbatim>\<open>GPIO_LOW\<close> and sets \<^verbatim>\<open>buzzer_stats\<close>
  to \<^verbatim>\<open>BUZZERON\<close>; byte 0 returns 0, drives the line to \<^verbatim>\<open>GPIO_HIGH\<close> and sets
  \<^verbatim>\<open>buzzer_stats\<close> to \<^verbatim>\<open>BUZZEROFF\<close>; any other byte returns 0 and leaves the whole
  machine as it was.
\<close>

theorem miscbuzzer_write_byte:
  assumes "0 \<le> sint uncopied"
  shows "fst (miscbuzzer_write m uncopied 1) = 0
       \<and> gpio_level (snd (miscbuzzer_write m uncopied 1)) (buzzer_gpio (miscbuzzer m)) = GPIO_LOW
       \<and> buzzer_stats (miscbuzzer (snd (miscbuzzer_write m uncopied 1))) = BUZZERON
       \<and> fst (miscbuzzer_write m uncopied 0) = 0
       \<and> gpio_level (snd (miscbuzzer_write m uncopied 0)) (buzzer_gpio (miscbuzzer m)) = GPIO_HIGH
       \<and> buzzer_stats (miscbuzzer (snd (miscbuzzer_write m uncopied 0))) = BUZZEROFF
       \<and> (b \<noteq> 1 \<and> b \<noteq> 0 \<longrightarrow> miscbuzzer_write m uncopied b = (0, m))"
proof -
  have on: "miscbuzzer_write m uncopied 1 =
      (0, set_buzzer_stats BUZZERON (gpio_set_value (buzzer_gpio (miscbuzzer m)) GPIO_LOW m))"
    using assms by (simp add: miscbuzzer_write_def buzzer_consts)
  have off: "miscbuzzer_write m uncopied 0 =
      (0, set_buzzer_stats BUZZEROFF (gpio_set_value (buzzer_gpio (miscbuzzer m)) GPIO_HIGH m))"
    using assms by (simp add: miscbuzzer_write_def buzzer_consts)
  have other: "miscbuzzer_write m uncopied b = (0, m)" if "b \<noteq> 1" "b \<noteq> 0"
  proof -
    from that have "uint b \<noteq> 1" "uint b \<noteq> 0"
      using word_uint_eq_iff [of b 1] word_uint_eq_iff [of b 0] by simp_all
    then show ?thesis using assms by (simp add: miscbuzzer_write_def buzzer_consts)
  qed
  show ?thesis
    using other by (simp add: on off machine_ops)
qed

theorem miscbuzzer_write_byte_witness:
  "0 \<le> sint (0 :: ulong) \<and> (7 :: 8 word) \<noteq> 1 \<and> (7 :: 8 word) \<noteq> 0
   \<and> miscbuzzer_write (module_loaded (\<lambda>_. 1)) 0 7 = (0, module_loaded (\<lambda>_. 1))
   \<and> buzzer_stats (miscbuzzer (snd (miscbuzzer_write (module_loaded (\<lambda>_. 1)) 0 1))) = BUZZERON
   \<and> gpio_level (snd (miscbuzzer_write (module_loaded (\<lambda>_. 1)) 0 1))
        (buzzer_gpio (miscbuzzer (module_loaded (\<lambda>_. 1)))) = GPIO_LOW"
  using miscbuzzer_write_byte [of 0 "module_loaded (\<lambda>_. 1)" 7] by simp

subsection \<open>Attribute write\<close>

text \<open>
  C6. A write to the attribute while \<^verbatim>\<open>dev_stats\<close> is \<^verbatim>\<open>DEV_BUSY\<close> returns \<^verbatim>\<open>-EBUSY\<close>,
  leaves every field of \<^verbatim>\<open>miscbuzzer\<close> (so \<^verbatim>\<open>buzzer_stats\<close> too) and the level of every
  GPIO line as they were.
\<close>

theorem buzzer_store_busy:
  assumes "dev_stats (miscbuzzer m) = DEV_BUSY"
  shows "fst (buzzer_store m buf sz state0) = - EBUSY
       \<and> miscbuzzer (snd (buzzer_store m buf sz state0)) = miscbuzzer m
       \<and> gpio_level (snd (buzzer_store m buf sz state0)) = gpio_level m"
  using assms by (simp add: buzzer_store_def machine_ops)

theorem buzzer_store_busy_witness:
  "dev_stats (miscbuzzer (snd (miscbuzzer_open (module_loaded (\<lambda>_. 1))))) = DEV_BUSY
   \<and> fst (buzzer_store (snd (miscbuzzer_open (module_loaded (\<lambda>_. 1)))) ''1'' 1 0) = - EBUSY
   \<and> buzzer_stats (miscbuzzer
        (snd (buzzer_store (snd (miscbuzzer_open (module_loaded (\<lambda>_. 1)))) ''1'' 1 0))) = BUZZEROFF
   \<and> gpio_level (snd (buzzer_store (snd (miscbuzzer_open (module_loaded (\<lambda>_. 1)))) ''1'' 1 0)) 0
        = GPIO_HIGH"
proof -
  have busy: "dev_stats (miscbuzzer (snd (miscbuzzer_open (module_loaded (\<lambda>_. 1))))) = DEV_BUSY"
    by (rule opened_busy)
  from busy buzzer_store_busy [OF busy, of "''1''" 1 0] show ?thesis
    by (simp add: opened_fields buzzer_consts)
qed

text \<open>
  C7. When the device is free and \<^verbatim>\<open>kstrtoul\<close> fails, \<^verbatim>\<open>buzzer_store\<close> has set
  \<^verbatim>\<open>dev_stats\<close> to \<^verbatim>\<open>DEV_BUSY\<close>, still ends with \<^verbatim>\<open>dev_stats = DEV_FREE\<close>, and returns
  the byte count \<^verbatim>\<open>size\<close> (for every count that \<^verbatim>\<open>ssize_t\<close> holds), which is not
  negative: no error is returned.
\<close>

theorem buzzer_store_parse_failure:
  assumes "dev_stats (miscbuzzer m) \<noteq> DEV_BUSY" and "kstrtoul buf = Inl e" and "uint sz < 2 ^ 31"
  shows "fst (buzzer_store m buf sz state0) = uint sz
       \<and> 0 \<le> fst (buzzer_store m buf sz state0)
       \<and> dev_stats (miscbuzzer (snd (buzzer_store m buf sz state0))) = DEV_FREE
       \<and> Dev_write DEV_BUSY \<in> set (new_events m (snd (buzzer_store m buf sz state0)))"
  using assms(2) sint_size [OF assms(3)]
  by (simp add: buzzer_store_free [OF assms(1)] Let_def machine_ops new_events_def)

theorem buzzer_store_parse_failure_witness:
  "dev_stats (miscbuzzer (module_loaded (\<lambda>_. 1))) \<noteq> DEV_BUSY
   \<and> kstrtoul ''on'' = Inl (- EINVAL) \<and> uint (2 :: size_t) < 2 ^ 31
   \<and> fst (buzzer_store (module_loaded (\<lambda>_. 1)) ''on'' 2 5) = 2
   \<and> dev_stats (miscbuzzer (snd (buzzer_store (module_loaded (\<lambda>_. 1)) ''on'' 2 5))) = DEV_FREE"
proof -
  have free: "dev_stats (miscbuzzer (module_loaded (\<lambda>_. 1))) \<noteq> DEV_BUSY"
    by (simp add: loaded_fields buzzer_consts)
  have bad: "kstrtoul ''on'' = Inl (- EINVAL)"
    by (simp add: kstrtoul_defs)
  have small: "uint (2 :: size_t) < 2 ^ 31" by simp
  from free bad small buzzer_store_parse_failure [OF free bad small, of 5] show ?thesis
    by simp
qed

text \<open>
  C9. With the device free, writing the text \<^verbatim>\<open>1\<close> (alone or followed by a newline) to
  the attribute sets \<^verbatim>\<open>buzzer_stats\<close> to \<^verbatim>\<open>BUZZERON\<close>, drives the line low, leaves
  \<^verbatim>\<open>dev_stats\<close> at \<^verbatim>\<open>DEV_FREE\<close> and returns the byte count; writing \<^verbatim>\<open>0\<close> sets
  \<^verbatim>\<open>BUZZEROFF\<close>, drives the line high and returns the byte count.
\<close>

theorem buzzer_store_on_off:
  assumes "dev_stats (miscbuzzer m) \<noteq> DEV_BUSY" and "uint sz < 2 ^ 31"
    and "buf1 = ''1'' \<or> buf1 = [CHR ''1'', CHR 0x0A]"
    and "buf0 = ''0'' \<or> buf0 = [CHR ''0'', CHR 0x0A]"
  shows "fst (buzzer_store m buf1 sz state0) = uint sz
       \<and> buzzer_stats (miscbuzzer (snd (buzzer_store m buf1 sz state0))) = BUZZERON
       \<and> gpio_level (snd (buzzer_store m buf1 sz state0)) (buzzer_gpio (miscbuzzer m)) = GPIO_LOW
       \<and> dev_stats (miscbuzzer (snd (buzzer_store m buf1 sz state0))) = DEV_FREE
       \<and> fst (buzzer_store m buf0 sz state0) = uint sz
       \<and> buzzer_stats (miscbuzzer (snd (buzzer_store m buf0 sz state0))) = BUZZEROFF
       \<and> gpio_level (snd (buzzer_store m buf0 sz state0)) (buzzer_gpio (miscbuzzer m)) = GPIO_HIGH
       \<and> dev_stats (miscbuzzer (snd (buzzer_store m buf0 sz state0))) = DEV_FREE"
proof -
  have k1: "kstrtoul buf1 = Inr 1"
    using assms(3) by (auto simp add: kstrtoul_defs)
  have k0: "kstrtoul buf0 = Inr 0"
    using assms(4) by (auto simp add: kstrtoul_defs)
  show ?thesis
    using sint_size [OF assms(2)]
    by (simp add: buzzer_store_free [OF assms(1)] k1 k0 Let_def machine_ops)
qed

theorem buzzer_store_on_off_witness:
  "dev_stats (miscbuzzer (module_loaded (\<lambda>_. 1))) \<noteq> DEV_BUSY \<and> uint (2 :: size_t) < 2 ^ 31
   \<and> fst (buzzer_store (module_loaded (\<lambda>_. 1)) [CHR ''1'', CHR 0x0A] 2 0) = 2
   \<and> buzzer_stats (miscbuzzer (snd (buzzer_store (module_loaded (\<lambda>_. 1)) [CHR ''1'', CHR 0x0A] 2 0)))
        = BUZZERON
   \<and> gpio_level (snd (buzzer_store (module_loaded (\<lambda>_. 1)) [CHR ''1'', CHR 0x0A] 2 0)) 0 = GPIO_LOW
   \<and> buzzer_stats (miscbuzzer (snd (buzzer_store (module_loaded (\<lambda>_. 1)) ''0'' 2 0))) = BUZZEROFF"
proof -
  have free: "dev_stats (miscbuzzer (module_loaded (\<lambda>_. 1))) \<noteq> DEV_BUSY"
    by (simp add: loaded_fields buzzer_consts)
  have small: "uint (2 :: size_t) < 2 ^ 31" by simp
  from free small
    buzzer_store_on_off [OF free small, of "[CHR ''1'', CHR 0x0A]" "''0''" 0]
  show ?thesis
    by (simp add: loaded_fields)
qed

text \<open>
  C10. With the device free, a text that \<^verbatim>\<open>kstrtoul\<close> parses to a number other than 0
  and 1 leaves \<^verbatim>\<open>buzzer_stats\<close> and every GPIO level unchanged, ends with
  \<^verbatim>\<open>dev_stats = DEV_FREE\<close> and returns the byte count.
\<close>

theorem buzzer_store_other_value:
  assumes "dev_stats (miscbuzzer m) \<noteq> DEV_BUSY" and "kstrtoul buf = Inr v"
    and "v \<noteq> 0" and "v \<noteq> 1" and "uint sz < 2 ^ 31"
  shows "fst (buzzer_store m buf sz state0) = uint sz
       \<and> buzzer_stats (miscbuzzer (snd (buzzer_store m buf sz state0))) = buzzer_stats (miscbuzzer m)
       \<and> gpio_level (snd (buzzer_store m buf sz state0)) = gpio_level m
       \<and> dev_stats (miscbuzzer (snd (buzzer_store m buf sz state0))) = DEV_FREE"
  using assms(2-4) sint_size [OF assms(5)]
  by (simp add: buzzer_store_free [OF assms(1)] Let_def machine_ops)

theorem buzzer_store_other_value_witness:
  "dev_stats (miscbuzzer (module_loaded (\<lambda>_. 1))) \<noteq> DEV_BUSY
   \<and> kstrtoul ''7'' = Inr 7 \<and> (7 :: ulong) \<noteq> 0 \<and> (7 :: ulong) \<noteq> 1 \<and> uint (1 :: size_t) < 2 ^ 31
   \<and> fst (buzzer_store (module_loaded (\<lambda>_. 1)) ''7'' 1 0) = 1
   \<and> buzzer_stats (miscbuzzer (snd (buzzer_store (module_loaded (\<lambda>_. 1)) ''7'' 1 0))) = 0
   \<and> gpio_level (snd (buzzer_store (module_loaded (\<lambda>_. 1)) ''7'' 1 0)) 0 = 1
   \<and> dev_stats (miscbuzzer (snd (buzzer_store (module_loaded (\<lambda>_. 1)) ''7'' 1 0))) = DEV_FREE"
proof -
  have free: "dev_stats (miscbuzzer (module_loaded (\<lambda>_. 1))) \<noteq> DEV_BUSY"
    by (simp add: loaded_fields buzzer_consts)
  have seven: "kstrtoul ''7'' = Inr 7"
    by (simp add: kstrtoul_defs)
  have n0: "(7 :: ulong) \<noteq> 0" and n1: "(7 :: ulong) \<noteq> 1" by simp_all
  have small: "uint (1 :: size_t) < 2 ^ 31" by simp
  from free seven small buzzer_store_other_value [OF free seven n0 n1 small, of 0]
  show ?thesis
    by (simp add: loaded_fields)
qed

subsection \<open>Release\<close>

text \<open>
  C8. \<^verbatim>\<open>miscbuzzer_release\<close> always returns 0; it turns \<^verbatim>\<open>dev_stats = DEV_BUSY\<close> into
  \<^verbatim>\<open>DEV_FREE\<close> and leaves any other value; it changes neither \<^verbatim>\<open>buzzer_stats\<close>, nor
  \<^verbatim>\<open>buzzer_gpio\<close>, nor a GPIO level; a second release changes nothing of the device
  and the lines.
\<close>

theorem miscbuzzer_release_frees:
  "fst (miscbuzzer_release m) = 0
   \<and> dev_stats (miscbuzzer (snd (miscbuzzer_release m))) =
       (if dev_stats (miscbuzzer m) = DEV_BUSY then DEV_FREE else dev_stats (miscbuzzer m))
   \<and> buzzer_stats (miscbuzzer (snd (miscbuzzer_release m))) = buzzer_stats (miscbuzzer m)
   \<and> buzzer_gpio (miscbuzzer (snd (miscbuzzer_release m))) = buzzer_gpio (miscbuzzer m)
   \<and> gpio_level (snd (miscbuzzer_release m)) = gpio_level m
   \<and> miscbuzzer (snd (miscbuzzer_release (snd (miscbuzzer_release m)))) =
       miscbuzzer (snd (miscbuzzer_release m))
   \<and> gpio_level (snd (miscbuzzer_release (snd (miscbuzzer_release m)))) =
       gpio_level (snd (miscbuzzer_release m))
   \<and> fst (miscbuzzer_release (snd (miscbuzzer_release m))) = 0"
proof -
  have ret: "fst (miscbuzzer_release x) = 0" for x
    by (simp add: miscbuzzer_release_def Let_def)
  have dev: "miscbuzzer (snd (miscbuzzer_release x)) =
      (if dev_stats (miscbuzzer x) = DEV_BUSY then (miscbuzzer x)\<lparr>dev_stats := DEV_FREE\<rparr>
       else miscbuzzer x)" for x
    by (simp add: miscbuzzer_release_def machine_ops Let_def)
  have lines: "gpio_level (snd (miscbuzzer_release x)) = gpio_level x" for x
    by (simp add: miscbuzzer_release_def machine_ops Let_def)
  have again: "miscbuzzer (snd (miscbuzzer_release (snd (miscbuzzer_release m)))) =
      miscbuzzer (snd (miscbuzzer_release m))"
    by (simp add: dev buzzer_consts)
  show ?thesis
    by (simp add: ret dev lines again del: miscbuzzer_dev.simps)
qed

theorem miscbuzzer_release_frees_witness:
  "dev_stats (miscbuzzer (snd (miscbuzzer_open (module_loaded (\<lambda>_. 1))))) = DEV_BUSY
   \<and> fst (miscbuzzer_release (snd (miscbuzzer_open (module_loaded (\<lambda>_. 1))))) = 0
   \<and> dev_stats (miscbuzzer (snd (miscbuzzer_release (snd (miscbuzzer_open (module_loaded (\<lambda>_. 1)))))))
        = DEV_FREE
   \<and> gpio_level (snd (miscbuzzer_release (snd (miscbuzzer_open (module_loaded (\<lambda>_. 1)))))) 0 = 1"
  using miscbuzzer_release_frees [of "snd (miscbuzzer_open (module_loaded (\<lambda>_. 1)))"]
  by (simp add: opened_busy opened_fields)

subsection \<open>Exclusive sessions\<close>

lemma run_calls_append:
  "run_calls (xs @ ys) m =
     (fst (run_calls xs m) @ fst (run_calls ys (snd (run_calls xs m))),
      snd (run_calls ys (snd (run_calls xs m))))"
  by (induction xs arbitrary: m) (simp_all add: split_beta Let_def)

lemma length_run_calls: "length (fst (run_calls cs m)) = length cs"
  by (induction cs arbitrary: m) (simp_all add: split_beta Let_def)

lemma open_result:
  "fst (miscbuzzer_open m) = (if dev_stats (miscbuzzer m) = DEV_BUSY then - EBUSY else 0)"
  "dev_stats (miscbuzzer (snd (miscbuzzer_open m))) = DEV_BUSY"
  by (simp_all add: miscbuzzer_open_def machine_ops Let_def)

lemma open_busy_frame:
  "dev_stats (miscbuzzer m) = DEV_BUSY \<Longrightarrow>
     miscbuzzer (snd (miscbuzzer_open m)) = miscbuzzer m
     \<and> gpio_level (snd (miscbuzzer_open m)) = gpio_level m"
  by (simp add: miscbuzzer_open_def machine_ops Let_def)

lemma release_not_busy:
  "dev_stats (miscbuzzer (snd (miscbuzzer_release m))) \<noteq> DEV_BUSY"
  by (simp add: miscbuzzer_release_def machine_ops Let_def buzzer_consts)

lemma opens_stay_busy:
  "Close_session \<notin> set cs \<Longrightarrow> dev_stats (miscbuzzer m) = DEV_BUSY \<Longrightarrow>
     dev_stats (miscbuzzer (snd (run_calls cs m))) = DEV_BUSY"
proof (induction cs arbitrary: m)
  case Nil
  then show ?case by simp
next
  case (Cons c cs)
  from Cons.prems(1) have c: "c = Open_session" and rest: "Close_session \<notin> set cs"
    by (cases c; simp)+
  have "dev_stats (miscbuzzer (snd (do_call c m))) = DEV_BUSY"
    by (simp add: c do_call_def open_result)
  from Cons.IH [OF rest this] show ?case
    by (simp add: split_beta Let_def)
qed

text \<open>The \<open>i\<close>-th return value is that of the \<open>i\<close>-th call on the machine before it.\<close>

lemma run_calls_nth:
  assumes "i < length cs"
  shows "fst (run_calls cs m) ! i = fst (do_call (cs ! i) (snd (run_calls (take i cs) m)))"
    and "snd (run_calls (take (Suc i) cs) m) = snd (do_call (cs ! i) (snd (run_calls (take i cs) m)))"
proof -
  from assms have split: "cs = take i cs @ cs ! i # drop (Suc i) cs"
    by (simp add: id_take_nth_drop)
  have len: "length (fst (run_calls (take i cs) m)) = i"
    using assms by (simp add: length_run_calls)
  have "fst (run_calls cs m) ! i =
      fst (run_calls (take i cs @ cs ! i # drop (Suc i) cs) m) ! i"
    using split by simp
  also have "\<dots> = fst (do_call (cs ! i) (snd (run_calls (take i cs) m)))"
    by (simp add: run_calls_append nth_append len split_beta Let_def)
  finally show "fst (run_calls cs m) ! i = fst (do_call (cs ! i) (snd (run_calls (take i cs) m)))" .
  have "take (Suc i) cs = take i cs @ [cs ! i]"
    using assms by (simp add: take_Suc_conv_app_nth)
  then show "snd (run_calls (take (Suc i) cs) m) =
      snd (do_call (cs ! i) (snd (run_calls (take i cs) m)))"
    by (simp add: run_calls_append split_beta Let_def)
qed

text \<open>
  C2. For every sequence \<open>cs\<close> of open and release calls run from a machine whose
  \<^verbatim>\<open>dev_stats\<close> is \<^verbatim>\<open>DEV_FREE\<close>: two opens that both return 0 have a release between
  them (so at most one open succeeds while an earlier successful session is not
  released); an open made while \<^verbatim>\<open>dev_stats\<close> is \<^verbatim>\<open>DEV_BUSY\<close> returns \<^verbatim>\<open>-EBUSY\<close> and
  changes neither the device structure nor a GPIO level; an open that directly follows
  a release returns 0.
\<close>

theorem session_exclusive:
  assumes "dev_stats (miscbuzzer m) = DEV_FREE"
  shows "(\<forall>i j. i < j \<and> j < length cs \<and> cs ! i = Open_session \<and> cs ! j = Open_session
            \<and> fst (run_calls cs m) ! i = 0 \<and> fst (run_calls cs m) ! j = 0
          \<longrightarrow> (\<exists>k. i < k \<and> k < j \<and> cs ! k = Close_session))
       \<and> (\<forall>i. i < length cs \<and> cs ! i = Open_session
            \<and> dev_stats (miscbuzzer (snd (run_calls (take i cs) m))) = DEV_BUSY
          \<longrightarrow> fst (run_calls cs m) ! i = - EBUSY
            \<and> miscbuzzer (snd (run_calls (take (Suc i) cs) m)) =
                miscbuzzer (snd (run_calls (take i cs) m))
            \<and> gpio_level (snd (run_calls (take (Suc i) cs) m)) =
                gpio_level (snd (run_calls (take i cs) m)))
       \<and> (\<forall>i. Suc i < length cs \<and> cs ! i = Close_session \<and> cs ! Suc i = Open_session
          \<longrightarrow> fst (run_calls cs m) ! Suc i = 0)"
proof (intro conjI allI impI)
  fix i j
  assume a: "i < j \<and> j < length cs \<and> cs ! i = Open_session \<and> cs ! j = Open_session
            \<and> fst (run_calls cs m) ! i = 0 \<and> fst (run_calls cs m) ! j = 0"
  then have ij: "i < j" and j: "j < length cs" and i: "i < length cs"
    and ci: "cs ! i = Open_session" and cj: "cs ! j = Open_session"
    and rj: "fst (run_calls cs m) ! j = 0"
    by simp_all
  let ?mid = "take (j - Suc i) (drop (Suc i) cs)"
  show "\<exists>k. i < k \<and> k < j \<and> cs ! k = Close_session"
  proof (rule ccontr)
    assume none: "\<not> (\<exists>k. i < k \<and> k < j \<and> cs ! k = Close_session)"
    have mid: "Close_session \<notin> set ?mid"
    proof
      assume "Close_session \<in> set ?mid"
      then obtain n where n: "n < length ?mid" and at: "?mid ! n = Close_session"
        by (auto simp add: in_set_conv_nth)
      from n have nlt: "n < j - Suc i" by simp
      then have "cs ! (Suc i + n) = Close_session"
        using at j by simp
      moreover have "i < Suc i + n" "Suc i + n < j" using nlt by simp_all
      ultimately show False using none by blast
    qed
    have after_i: "dev_stats (miscbuzzer (snd (run_calls (take (Suc i) cs) m))) = DEV_BUSY"
      by (simp add: run_calls_nth(2) [OF i] ci do_call_def open_result)
    have "take j cs = take (Suc i) cs @ ?mid"
    proof -
      have "take j cs = take (Suc i + (j - Suc i)) cs" using ij by simp
      then show ?thesis by (simp only: take_add)
    qed
    then have "snd (run_calls (take j cs) m) =
        snd (run_calls ?mid (snd (run_calls (take (Suc i) cs) m)))"
      by (simp add: run_calls_append)
    then have "dev_stats (miscbuzzer (snd (run_calls (take j cs) m))) = DEV_BUSY"
      using opens_stay_busy [OF mid after_i] by simp
    then have "fst (run_calls cs m) ! j = - EBUSY"
      by (simp add: run_calls_nth(1) [OF j] cj do_call_def open_result)
    with rj show False by (simp add: EBUSY_def)
  qed
next
  fix i
  assume a: "i < length cs \<and> cs ! i = Open_session
            \<and> dev_stats (miscbuzzer (snd (run_calls (take i cs) m))) = DEV_BUSY"
  then have i: "i < length cs" and ci: "cs ! i = Open_session"
    and busy: "dev_stats (miscbuzzer (snd (run_calls (take i cs) m))) = DEV_BUSY"
    by simp_all
  show "fst (run_calls cs m) ! i = - EBUSY"
    by (simp add: run_calls_nth(1) [OF i] ci do_call_def open_result busy)
  show "miscbuzzer (snd (run_calls (take (Suc i) cs) m)) =
      miscbuzzer (snd (run_calls (take i cs) m))"
    using open_busy_frame [OF busy] by (simp add: run_calls_nth(2) [OF i] ci do_call_def)
  show "gpio_level (snd (run_calls (take (Suc i) cs) m)) =
      gpio_level (snd (run_calls (take i cs) m))"
    using open_busy_frame [OF busy] by (simp add: run_calls_nth(2) [OF i] ci do_call_def)
next
  fix i
  assume a: "Suc i < length cs \<and> cs ! i = Close_session \<and> cs ! Suc i = Open_session"
  then have si: "Suc i < length cs" and i: "i < length cs"
    and ci: "cs ! i = Close_session" and cn: "cs ! Suc i = Open_session"
    by simp_all
  have "dev_stats (miscbuzzer (snd (run_calls (take (Suc i) cs) m))) \<noteq> DEV_BUSY"
    by (simp add: run_calls_nth(2) [OF i] ci do_call_def release_not_busy)
  then show "fst (run_calls cs m) ! Suc i = 0"
    by (simp add: run_calls_nth(1) [OF si] cn do_call_def open_result)
qed

theorem session_exclusive_witness:
  "dev_stats (miscbuzzer (module_loaded (\<lambda>_. 1))) = DEV_FREE
   \<and> fst (run_calls [Open_session, Open_session, Close_session, Open_session]
          (module_loaded (\<lambda>_. 1))) ! 0 = 0
   \<and> fst (run_calls [Open_session, Open_session, Close_session, Open_session]
          (module_loaded (\<lambda>_. 1))) ! 1 = - EBUSY
   \<and> fst (run_calls [Open_session, Open_session, Close_session, Open_session]
          (module_loaded (\<lambda>_. 1))) ! Suc 2 = 0
   \<and> (\<exists>k. 0 < k \<and> k < Suc 2
          \<and> [Open_session, Open_session, Close_session, Open_session] ! k = Close_session)"
proof -
  let ?m = "module_loaded (\<lambda>_. 1)"
  let ?cs = "[Open_session, Open_session, Close_session, Open_session]"
  have free: "dev_stats (miscbuzzer ?m) = DEV_FREE"
    by (simp add: loaded_fields buzzer_consts)
  note t = session_exclusive [OF free, of ?cs]
  have first: "fst (run_calls ?cs ?m) ! 0 = 0"
    by (simp add: do_call_def miscbuzzer_open_def miscbuzzer_release_def module_loaded_def
        machine_ops buzzer_consts Let_def)
  have "1 < length ?cs \<and> ?cs ! 1 = Open_session
      \<and> dev_stats (miscbuzzer (snd (run_calls (take 1 ?cs) ?m))) = DEV_BUSY"
    by (simp add: do_call_def miscbuzzer_open_def module_loaded_def machine_ops buzzer_consts
        Let_def)
  with t have second: "fst (run_calls ?cs ?m) ! 1 = - EBUSY"
    by blast
  have "Suc 2 < length ?cs \<and> ?cs ! 2 = Close_session \<and> ?cs ! Suc 2 = Open_session"
    by simp
  with t have fourth: "fst (run_calls ?cs ?m) ! Suc 2 = 0"
    by blast
  have "0 < Suc 2 \<and> Suc 2 < length ?cs \<and> ?cs ! 0 = Open_session \<and> ?cs ! Suc 2 = Open_session
      \<and> fst (run_calls ?cs ?m) ! 0 = 0 \<and> fst (run_calls ?cs ?m) ! Suc 2 = 0"
    using first fourth by simp
  with t have "\<exists>k. 0 < k \<and> k < Suc 2 \<and> ?cs ! k = Close_session"
    by blast
  with free first second fourth show ?thesis
    by blast
qed

subsection \<open>Which stores are made under the lock\<close>

text \<open>
  C3, as amended. On every input, the stores of \<^verbatim>\<open>miscbuzzer_open\<close>,
  \<^verbatim>\<open>miscbuzzer_release\<close> and \<^verbatim>\<open>buzzer_store\<close> (every store to \<^verbatim>\<open>dev_stats\<close> by either
  front end, and the attribute's GPIO write and store to \<^verbatim>\<open>buzzer_stats\<close>) are made
  between \<^verbatim>\<open>spin_lock_irqsave\<close> and \<^verbatim>\<open>spin_unlock_irqrestore\<close>, and the attribute's
  store to \<^verbatim>\<open>buzzer_stats\<close> follows its GPIO write inside the same critical section.
\<close>

theorem locked_paths:
  "writes_locked False (new_events m (snd (miscbuzzer_open m)))
   \<and> writes_locked False (new_events m (snd (miscbuzzer_release m)))
   \<and> writes_locked False (new_events m (snd (buzzer_store m buf sz state0)))
   \<and> stats_with_gpio False (new_events m (snd (buzzer_store m buf sz state0)))"
proof (intro conjI)
  show "writes_locked False (new_events m (snd (miscbuzzer_open m)))"
    by (simp add: miscbuzzer_open_def new_events_def machine_ops Let_def)
  show "writes_locked False (new_events m (snd (miscbuzzer_release m)))"
    by (simp add: miscbuzzer_release_def new_events_def machine_ops Let_def)
  show "writes_locked False (new_events m (snd (buzzer_store m buf sz state0)))"
    by (simp add: buzzer_store_def new_events_def machine_ops Let_def)
  show "stats_with_gpio False (new_events m (snd (buzzer_store m buf sz state0)))"
    by (simp add: buzzer_store_def new_events_def machine_ops Let_def)
qed

theorem locked_paths_witness:
  "new_events (module_loaded (\<lambda>_. 1)) (snd (buzzer_store (module_loaded (\<lambda>_. 1)) ''1'' 1 0)) =
     [Spin_lock, Dev_write DEV_BUSY, Gpio_write 0 GPIO_LOW, Stats_write BUZZERON,
      Dev_write DEV_FREE, Spin_unlock]
   \<and> writes_locked False
       (new_events (module_loaded (\<lambda>_. 1)) (snd (buzzer_store (module_loaded (\<lambda>_. 1)) ''1'' 1 0)))
   \<and> stats_with_gpio False
       (new_events (module_loaded (\<lambda>_. 1)) (snd (buzzer_store (module_loaded (\<lambda>_. 1)) ''1'' 1 0)))"
proof -
  have free: "dev_stats (miscbuzzer (module_loaded (\<lambda>_. 1))) \<noteq> DEV_BUSY"
    by (simp add: loaded_fields buzzer_consts)
  have one: "kstrtoul ''1'' = Inr 1"
    by (simp add: kstrtoul_defs)
  have "new_events (module_loaded (\<lambda>_. 1)) (snd (buzzer_store (module_loaded (\<lambda>_. 1)) ''1'' 1 0)) =
     [Spin_lock, Dev_write DEV_BUSY, Gpio_write 0 GPIO_LOW, Stats_write BUZZERON,
      Dev_write DEV_FREE, Spin_unlock]"
    by (simp add: buzzer_store_free [OF free] one Let_def machine_ops new_events_def loaded_fields)
  with locked_paths [of "module_loaded (\<lambda>_. 1)" "''1''" 1 0] show ?thesis
    by blast
qed

text \<open>
  C3 as stated fails on \<^verbatim>\<open>miscbuzzer_write\<close>, which never takes the lock: a session
  write of byte 1 drives the line and stores \<^verbatim>\<open>buzzer_stats\<close> with no lock event
  around them. The holder of the session is protected from the attribute by
  \<^verbatim>\<open>dev_stats = DEV_BUSY\<close> only.
\<close>

theorem miscbuzzer_write_unlocked:
  "new_events (snd (miscbuzzer_open (module_loaded (\<lambda>_. 1))))
       (snd (miscbuzzer_write (snd (miscbuzzer_open (module_loaded (\<lambda>_. 1)))) 0 1)) =
     [Gpio_write 0 GPIO_LOW, Stats_write BUZZERON]
   \<and> \<not> writes_locked False
       (new_events (snd (miscbuzzer_open (module_loaded (\<lambda>_. 1))))
          (snd (miscbuzzer_write (snd (miscbuzzer_open (module_loaded (\<lambda>_. 1)))) 0 1)))"
  by (simp add: miscbuzzer_write_def miscbuzzer_open_def module_loaded_def new_events_def
      machine_ops buzzer_consts Let_def)

subsection \<open>Copy faults in the session write\<close>

text \<open>
  When \<^verbatim>\<open>miscbuzzer_write\<close> returns \<^verbatim>\<open>-EFAULT\<close>, and what it leaves alone then. The
  test is \<^verbatim>\<open>retvalue < 0\<close>, while \<^verbatim>\<open>copy_from_user\<close> reports a fault by a positive
  number of bytes left.
\<close>

lemma miscbuzzer_write_efault_iff:
  "fst (miscbuzzer_write m uncopied databuf0) = - EFAULT \<longleftrightarrow> sint uncopied < 0"
  by (simp add: miscbuzzer_write_def Let_def EFAULT_def)

lemma miscbuzzer_write_efault_frame:
  "sint uncopied < 0 \<Longrightarrow> snd (miscbuzzer_write m uncopied databuf0) = m"
  by (simp add: miscbuzzer_write_def)

text \<open>
  C4. The claim asks for \<^verbatim>\<open>-EFAULT\<close> and an untouched device whenever the byte could not
  be copied. On an open session with the buzzer on (line low), a write of one byte
  from an unreadable buffer (\<^verbatim>\<open>copy_from_user\<close> returns 1 and leaves 0 in
  \<^verbatim>\<open>databuf[0]\<close>) returns 0, drives the line high and sets \<^verbatim>\<open>buzzer_stats\<close> to
  \<^verbatim>\<open>BUZZEROFF\<close>.
\<close>

theorem miscbuzzer_write_fault_unreported:
  "buzzer_stats (miscbuzzer (snd (miscbuzzer_write (snd (miscbuzzer_open (module_loaded (\<lambda>_. 1)))) 0 1)))
     = BUZZERON
   \<and> gpio_level (snd (miscbuzzer_write (snd (miscbuzzer_open (module_loaded (\<lambda>_. 1)))) 0 1)) 0
     = GPIO_LOW
   \<and> fst (miscbuzzer_write
        (snd (miscbuzzer_write (snd (miscbuzzer_open (module_loaded (\<lambda>_. 1)))) 0 1)) 1 0) = 0
   \<and> buzzer_stats (miscbuzzer (snd (miscbuzzer_write
        (snd (miscbuzzer_write (snd (miscbuzzer_open (module_loaded (\<lambda>_. 1)))) 0 1)) 1 0)))
     = BUZZEROFF
   \<and> gpio_level (snd (miscbuzzer_write
        (snd (miscbuzzer_write (snd (miscbuzzer_open (module_loaded (\<lambda>_. 1)))) 0 1)) 1 0)) 0
     = GPIO_HIGH"
  by (simp add: miscbuzzer_write_def miscbuzzer_open_def module_loaded_def machine_ops
      buzzer_consts Let_def)

subsection \<open>State after attachment\<close>

text \<open>\<^verbatim>\<open>gpio_buzzer_probe\<close> never stores to \<^verbatim>\<open>buzzer_stats\<close>, whatever the platform says.\<close>

lemma gpio_buzzer_probe_keeps_stats:
  "buzzer_stats (miscbuzzer (snd (gpio_buzzer_probe m pdev))) = buzzer_stats (miscbuzzer m)"
  by (simp add: gpio_buzzer_probe_def gpio_direction_output_def machine_ops Let_def
      split: option.split)

text \<open>
  Without a \<^verbatim>\<open>default-state\<close> property a successful attachment of the freshly loaded
  module leaves the line at the level set by \<^verbatim>\<open>gpio_direction_output\<close> (high) and the
  attribute reads \<^verbatim>\<open>0\<close>.
\<close>

lemma gpio_buzzer_probe_no_default:
  "fst (gpio_buzzer_probe (module_loaded (\<lambda>_. 0))
        \<lparr>of_gpios = 5, misc_register_ret = 0, device_create_file_ret = 0,
         gpio_direction_output_ret = 0, of_default_state = None\<rparr>) = 0
   \<and> gpio_level (snd (gpio_buzzer_probe (module_loaded (\<lambda>_. 0))
        \<lparr>of_gpios = 5, misc_register_ret = 0, device_create_file_ret = 0,
         gpio_direction_output_ret = 0, of_default_state = None\<rparr>)) 5 = GPIO_HIGH
   \<and> buzzer_show (snd (gpio_buzzer_probe (module_loaded (\<lambda>_. 0))
        \<lparr>of_gpios = 5, misc_register_ret = 0, device_create_file_ret = 0,
         gpio_direction_output_ret = 0, of_default_state = None\<rparr>)) = (2, [CHR ''0'', CHR 0x0A])"
  by (simp add: gpio_buzzer_probe_def gpio_direction_output_def module_loaded_def machine_ops
      buzzer_consts Let_def buzzer_show_def utoa.simps digit_char_def)

text \<open>
  C5. The claim asks that after attachment with \<^verbatim>\<open>default-state = "on"\<close> the status
  reads ON and the line is low. Attaching the freshly loaded module with GPIO 5 and
  \<^verbatim>\<open>default-state = "on"\<close> succeeds and drives line 5 low, but \<^verbatim>\<open>buzzer_stats\<close> is still
  \<^verbatim>\<open>BUZZEROFF\<close> and \<^verbatim>\<open>buzzer_show\<close> prints \<^verbatim>\<open>0\<close> and a newline.
\<close>

theorem gpio_buzzer_probe_default_on:
  "fst (gpio_buzzer_probe (module_loaded (\<lambda>_. 1))
        \<lparr>of_gpios = 5, misc_register_ret = 0, device_create_file_ret = 0,
         gpio_direction_output_ret = 0, of_default_state = Some ''on''\<rparr>) = 0
   \<and> gpio_level (snd (gpio_buzzer_probe (module_loaded (\<lambda>_. 1))
        \<lparr>of_gpios = 5, misc_register_ret = 0, device_create_file_ret = 0,
         gpio_direction_output_ret = 0, of_default_state = Some ''on''\<rparr>)) 5 = GPIO_LOW
   \<and> buzzer_stats (miscbuzzer (snd (gpio_buzzer_probe (module_loaded (\<lambda>_. 1))
        \<lparr>of_gpios = 5, misc_register_ret = 0, device_create_file_ret = 0,
         gpio_direction_output_ret = 0, of_default_state = Some ''on''\<rparr>))) = BUZZEROFF
   \<and> buzzer_show (snd (gpio_buzzer_probe (module_loaded (\<lambda>_. 1))
        \<lparr>of_gpios = 5, misc_register_ret = 0, device_create_file_ret = 0,
         gpio_direction_output_ret = 0, of_default_state = Some ''on''\<rparr>)) = (2, [CHR ''0'', CHR 0x0A])"
  by (simp add: gpio_buzzer_probe_def gpio_direction_output_def module_loaded_def machine_ops
      buzzer_consts Let_def buzzer_show_def utoa.simps digit_char_def c_str_def)

end
